theory Spec2Isabelle
  imports Main "HOL-Library.List_Lexorder" "HOL-Library.Multiset" "HOL-Library.Word"
begin

section \<open>JavaScript values\<close>

text \<open>
  A JavaScript string is modelled as the list of its UTF-16 code units, each a number
  below 65536. All literals of \<^verbatim>\<open>main.js\<close> are written out as code units (none
  of them needs a surrogate pair); their ASCII parts go through \<open>ascii\<close>.
\<close>

type_synonym jsstring = "nat list"

definition ascii :: "string \<Rightarrow> jsstring" where
  "ascii s = map of_char s"

text \<open>
  Surrogates. A high surrogate followed by a low surrogate is a pair and stands for one
  code point from 65536 on; any other surrogate is a lone one. \<open>code_points\<close> reads a
  string as its code points; a string is well formed when it has no lone surrogate.
\<close>

definition is_high :: "nat \<Rightarrow> bool" where
  "is_high c \<longleftrightarrow> 55296 \<le> c \<and> c \<le> 56319"

definition is_low :: "nat \<Rightarrow> bool" where
  "is_low c \<longleftrightarrow> 56320 \<le> c \<and> c \<le> 57343"

fun code_points :: "jsstring \<Rightarrow> nat list" where
  "code_points (h # l # cs) =
     (if is_high h \<and> is_low l then (65536 + (h - 55296) * 1024 + (l - 56320)) # code_points cs
      else h # code_points (l # cs))"
| "code_points [c] = [c]"
| "code_points [] = []"

fun well_formed :: "jsstring \<Rightarrow> bool" where
  "well_formed (h # l # cs) =
     (if is_high h \<and> is_low l then well_formed cs
      else \<not> (is_high h \<or> is_low h) \<and> well_formed (l # cs))"
| "well_formed [c] = (\<not> (is_high c \<or> is_low c))"
| "well_formed [] = True"

text \<open>
  The values that cross the IPC boundary as form fields: \<^verbatim>\<open>undefined\<close> (also the
  reading of a property that is missing), \<^verbatim>\<open>null\<close>, booleans, strings, and the
  numbers that are 32-bit integers (the numbers that the database driver binds as
  INTEGER; \<open>JNum 0\<close> stands for both zeros).
\<close>

datatype jsval = JUndefined | JNull | JBool bool | JNum "32 word" | JStr jsstring

text \<open>An object is a finite map from property names to values; a missing property
  reads as \<^verbatim>\<open>undefined\<close>, which is what destructuring does.\<close>

type_synonym jsobject = "string \<rightharpoonup> jsval"

definition get_prop :: "jsobject \<Rightarrow> string \<Rightarrow> jsval" where
  "get_prop obj k = (case obj k of None \<Rightarrow> JUndefined | Some v \<Rightarrow> v)"

text \<open>ToBoolean.\<close>

fun truthy :: "jsval \<Rightarrow> bool" where
  "truthy JUndefined = False"
| "truthy JNull = False"
| "truthy (JBool b) = b"
| "truthy (JNum n) = (n \<noteq> 0)"
| "truthy (JStr s) = (s \<noteq> [])"

text \<open>The decimal digits of a natural number, and Number::toString of a 32-bit
  integer: a minus sign for a negative one and the digits of its magnitude.\<close>

fun digits :: "nat \<Rightarrow> jsstring" where
  "digits n = (if n < 10 then [48 + n] else digits (n div 10) @ [48 + n mod 10])"

declare digits.simps [simp del]

definition int32_to_string :: "32 word \<Rightarrow> jsstring" where
  "int32_to_string w =
     (if sint w < 0 then 45 # digits (nat (- sint w)) else digits (nat (sint w)))"

text \<open>ToString, as a template literal applies it to an interpolated value.\<close>

fun to_string :: "jsval \<Rightarrow> jsstring" where
  "to_string JUndefined = ascii ''undefined''"
| "to_string JNull = ascii ''null''"
| "to_string (JBool b) = (if b then ascii ''true'' else ascii ''false'')"
| "to_string (JNum n) = int32_to_string n"
| "to_string (JStr s) = s"

text \<open>
  A number that comes back from the database or out of \<^verbatim>\<open>JSON.parse\<close> need not be a
  32-bit integer. The program only tests such a number for truthiness and prints it, so
  a number of any other kind (a wider integer, which the driver hands back as the
  nearest double, a fraction, an infinity, \<^verbatim>\<open>NaN\<close>) is given by the text that
  Number::toString prints for it. A number is falsy exactly when it is a zero or
  \<^verbatim>\<open>NaN\<close>, which print as \<^verbatim>\<open>0\<close> and \<^verbatim>\<open>NaN\<close>.
\<close>

datatype jsnumber = Int32 "32 word" | OtherNumber jsstring

fun number_truthy :: "jsnumber \<Rightarrow> bool" where
  "number_truthy (Int32 w) = (w \<noteq> 0)"
| "number_truthy (OtherNumber printed) = (printed \<noteq> ascii ''0'' \<and> printed \<noteq> ascii ''NaN'')"

fun number_to_string :: "jsnumber \<Rightarrow> jsstring" where
  "number_to_string (Int32 w) = int32_to_string w"
| "number_to_string (OtherNumber printed) = printed"

text \<open>
  The code units that ECMAScript counts as WhiteSpace or LineTerminator, for
  \<^verbatim>\<open>String.prototype.trim\<close> and for the class \<^verbatim>\<open>\s\<close> of a regular expression:
  TAB, LF, VT, FF, CR, SPACE, NBSP, U+1680, U+2000 to U+200A, U+2028, U+2029, U+202F,
  U+205F, U+3000 and U+FEFF.
\<close>

definition is_space :: "nat \<Rightarrow> bool" where
  "is_space c \<longleftrightarrow>
     (9 \<le> c \<and> c \<le> 13) \<or> c = 32 \<or> c = 160 \<or> c = 5760 \<or> (8192 \<le> c \<and> c \<le> 8202) \<or>
     c = 8232 \<or> c = 8233 \<or> c = 8239 \<or> c = 8287 \<or> c = 12288 \<or> c = 65279"

definition trim :: "jsstring \<Rightarrow> jsstring" where
  "trim s = rev (dropWhile is_space (rev (dropWhile is_space s)))"

section \<open>The history store\<close>

subsection \<open>The table\<close>

text \<open>
  The table \<^verbatim>\<open>ViewingHistory\<close> as line 17 to 26 declare it, each value as the driver
  hands it back to JavaScript. A column of type TEXT holds a text or NULL (\<open>None\<close>);
  the three columns declared NOT NULL and \<open>recorded_at\<close> hold a text. The column
  \<open>rating\<close> has INTEGER affinity: it holds NULL, a number, or a text that the engine
  could not read as a number. BLOB values are outside the model.
\<close>

datatype sqlval = SNull | SNumber jsnumber | SText jsstring

record row =
  row_id :: nat
  media_title :: jsstring
  start_date :: jsstring
  end_date :: jsstring
  rating :: sqlval
  row_notes :: "jsstring option"
  recorded_at :: jsstring
  tags :: "jsstring option"

text \<open>
  The database handle \<^verbatim>\<open>db\<close>: the rows in insertion order, the largest row id
  given out so far (AUTOINCREMENT), and the engine's condition. When \<open>fault\<close> is
  \<open>Some msg\<close> the engine answers every statement with an error of that message (the
  file could not be opened, the handle is closed, the disk fails).
\<close>

record db =
  rows :: "row list"
  last_id :: nat
  fault :: "jsstring option"

subsection \<open>Binding parameters\<close>

text \<open>
  A string is bound as its UTF-8 encoding and read back from it: a surrogate pair comes
  back as it went in, a lone surrogate comes back as U+FFFD.
\<close>

fun stored_text :: "jsstring \<Rightarrow> jsstring" where
  "stored_text (h # l # cs) =
     (if is_high h \<and> is_low l then h # l # stored_text cs
      else (if is_high h \<or> is_low h then 65533 else h) # stored_text (l # cs))"
| "stored_text [c] = [if is_high c \<or> is_low c then 65533 else c]"
| "stored_text [] = []"

text \<open>
  What the driver binds for a JavaScript value and what the column's affinity makes of
  it. \<^verbatim>\<open>undefined\<close> and \<^verbatim>\<open>null\<close> give NULL, a boolean gives the integer 1
  or 0, a number gives an integer, a string gives a text. A TEXT column stores an integer
  as its decimal text and a text as it is. An INTEGER column stores an integer as it is,
  and a text as the number the engine reads from it, or as the text itself when the
  engine reads no number from it: that reading is the engine's own and is the parameter
  \<open>numeric\<close>.
\<close>

fun text_column :: "jsval \<Rightarrow> jsstring option" where
  "text_column JUndefined = None"
| "text_column JNull = None"
| "text_column (JBool b) = Some (if b then ascii ''1'' else ascii ''0'')"
| "text_column (JNum n) = Some (int32_to_string n)"
| "text_column (JStr s) = Some (stored_text s)"

fun integer_column :: "(jsstring \<Rightarrow> jsnumber option) \<Rightarrow> jsval \<Rightarrow> sqlval" where
  "integer_column numeric JUndefined = SNull"
| "integer_column numeric JNull = SNull"
| "integer_column numeric (JBool b) = SNumber (Int32 (if b then 1 else 0))"
| "integer_column numeric (JNum n) = SNumber (Int32 n)"
| "integer_column numeric (JStr s) =
     (case numeric (stored_text s) of
        Some n \<Rightarrow> SNumber n
      | None \<Rightarrow> SText (stored_text s))"

text \<open>
  \<^verbatim>\<open>db.run('INSERT INTO ViewingHistory (media_title, start_date, end_date, rating,
  notes, recorded_at, tags) VALUES (?, ?, ?, ?, ?, ?, ?)', params, cb)\<close>: the error
  handed to the callback (\<open>None\<close> for \<^verbatim>\<open>null\<close>) and the database afterwards. A NULL
  in a NOT NULL column is refused by the engine with a message that names the first such
  column, and nothing is stored.
\<close>

definition not_null_failed :: "string \<Rightarrow> jsstring" where
  "not_null_failed column =
     ascii ''SQLITE_CONSTRAINT: NOT NULL constraint failed: ViewingHistory.'' @ ascii column"

definition db_run_insert ::
  "(jsstring \<Rightarrow> jsnumber option) \<Rightarrow> jsval \<times> jsval \<times> jsval \<times> jsval \<times> jsval \<times> jsval \<times> jsval
     \<Rightarrow> db \<Rightarrow> jsstring option \<times> db" where
  "db_run_insert numeric params d =
     (case params of (p_title, p_start, p_end, p_rating, p_notes, p_recorded, p_tags) \<Rightarrow>
        (case fault d of
           Some msg \<Rightarrow> (Some msg, d)
         | None \<Rightarrow>
             (case (text_column p_title, text_column p_start, text_column p_end,
                    text_column p_recorded) of
                (Some t, Some s, Some e, Some r) \<Rightarrow>
                  (None,
                   d\<lparr>rows := rows d @
                        [\<lparr>row_id = Suc (last_id d), media_title = t, start_date = s,
                          end_date = e, rating = integer_column numeric p_rating,
                          row_notes = text_column p_notes, recorded_at = r,
                          tags = text_column p_tags\<rparr>],
                      last_id := Suc (last_id d)\<rparr>)
              | (None, _, _, _) \<Rightarrow> (Some (not_null_failed ''media_title''), d)
              | (Some t, None, _, _) \<Rightarrow> (Some (not_null_failed ''start_date''), d)
              | (Some t, Some s, None, _) \<Rightarrow> (Some (not_null_failed ''end_date''), d)
              | (Some t, Some s, Some e, None) \<Rightarrow> (Some (not_null_failed ''recorded_at''), d))))"

subsection \<open>Querying\<close>

text \<open>
  \<^verbatim>\<open>ORDER BY recorded_at DESC\<close> compares the texts byte by byte in UTF-8, which is
  the lexicographic order of their code points: \<open>sort_key\<close>. Rows are inserted one by
  one into a descending list; rows of equal \<open>recorded_at\<close> keep their insertion order
  (SQL leaves the order of ties to the engine).
\<close>

definition sort_key :: "row \<Rightarrow> nat list" where
  "sort_key r = code_points (recorded_at r)"

fun insert_desc :: "row \<Rightarrow> row list \<Rightarrow> row list" where
  "insert_desc r [] = [r]"
| "insert_desc r (x # xs) =
     (if sort_key x \<le> sort_key r then r # x # xs else x # insert_desc r xs)"

definition order_by_recorded_at_desc :: "row list \<Rightarrow> row list" where
  "order_by_recorded_at_desc rs = foldr insert_desc rs []"

text \<open>\<^verbatim>\<open>db.all('SELECT * FROM ViewingHistory ORDER BY recorded_at DESC', cb)\<close>:
  the error or the rows handed to the callback.\<close>

definition db_all_ordered :: "db \<Rightarrow> jsstring + row list" where
  "db_all_ordered d =
     (case fault d of
        Some msg \<Rightarrow> Inl msg
      | None \<Rightarrow> Inr (order_by_recorded_at_desc (rows d)))"

subsection \<open>recordViewingHistory\<close>

record op_result =
  success :: bool
  message :: jsstring

text \<open>"Error: title, start date and end date are required fields."\<close>

definition validation_message :: jsstring where
  "validation_message =
     [12456, 12521, 12540, 58, 32, 20316, 21697, 21517, 12289, 38283, 22987, 26085, 12289,
      32066, 20102, 26085, 12399, 24517, 38920, 38917, 30446, 12391, 12377, 12290]"

text \<open>"Recorded the viewing history: '" (the title and a closing quote follow).\<close>

definition recorded_prefix :: jsstring where
  "recorded_prefix =
     [35222, 32884, 23653, 27508, 12434, 35352, 37682, 12375, 12414, 12375, 12383, 58, 32, 39]"

text \<open>
  \<open>recordViewingHistory numeric now data d\<close>: \<open>now\<close> is what
  \<^verbatim>\<open>new Date().toISOString()\<close> returns at the call, an ASCII text. The result is
  what the callback
  receives, \<open>Inl\<close> the message of the error \<^verbatim>\<open>err\<close> or \<open>Inr\<close> the result object,
  and the database afterwards. The argument \<open>data\<close> is an object, as the input of the
  operation is: with \<^verbatim>\<open>undefined\<close> or \<^verbatim>\<open>null\<close> in its place the destructuring of
  line 76 throws before anything else happens.
\<close>

definition recordViewingHistory ::
  "(jsstring \<Rightarrow> jsnumber option) \<Rightarrow> string \<Rightarrow> jsobject \<Rightarrow> db \<Rightarrow> (jsstring + op_result) \<times> db" where
  "recordViewingHistory numeric now data d =
     (let mediaTitle = get_prop data ''mediaTitle''; startDate = get_prop data ''startDate'';
          endDate = get_prop data ''endDate''; rating = get_prop data ''rating'';
          notes = get_prop data ''notes''; tags = get_prop data ''tags''
      in if \<not> truthy mediaTitle \<or> \<not> truthy startDate \<or> \<not> truthy endDate
         then (Inr \<lparr>success = False, message = validation_message\<rparr>, d)
         else
           (let recordedAt = JStr (ascii now);
                params = (mediaTitle, startDate, endDate, rating, notes, recordedAt, tags)
            in case db_run_insert numeric params d of
                 (Some err, d') \<Rightarrow> (Inl err, d')
               | (None, d') \<Rightarrow>
                   (Inr \<lparr>success = True,
                         message = recorded_prefix @ to_string mediaTitle @ [39]\<rparr>,
                    d')))"

text \<open>The handler of \<^verbatim>\<open>'record-history'\<close>: an error becomes a failure result.\<close>

definition record_history ::
  "(jsstring \<Rightarrow> jsnumber option) \<Rightarrow> string \<Rightarrow> jsobject \<Rightarrow> db \<Rightarrow> op_result \<times> db" where
  "record_history numeric now data d =
     (case recordViewingHistory numeric now data d of
        (Inl err, d') \<Rightarrow> (\<lparr>success = False, message = err\<rparr>, d')
      | (Inr result, d') \<Rightarrow> (result, d'))"

subsection \<open>getAllViewingHistory\<close>

text \<open>"There is no viewing history yet."\<close>

definition no_history :: jsstring where
  "no_history =
     [12414, 12384, 35222, 32884, 23653, 27508, 12364, 12354, 12426, 12414, 12379, 12435, 12290]"

text \<open>"--- Viewing history ---" and a line feed.\<close>

definition list_header :: jsstring where
  "list_header = [45, 45, 45, 32, 35222, 32884, 23653, 27508, 19968, 35239, 32, 45, 45, 45, 10]"

text \<open>The middle dot that opens a line; " (rating:", " [memo: " and " [tags: ".\<close>

definition bullet :: jsstring where
  "bullet = [12539]"

definition rating_open :: jsstring where
  "rating_open = [32, 40, 35413, 20385, 58]"

definition notes_open :: jsstring where
  "notes_open = [32, 91, 12513, 12514, 58, 32]"

definition tags_open :: jsstring where
  "tags_open = [32, 91, 12479, 12464, 58, 32]"

text \<open>ToBoolean and ToString of the value of \<^verbatim>\<open>row.rating\<close>: NULL comes back as
  \<^verbatim>\<open>null\<close>, a number as a number, a text as a string.\<close>

fun column_truthy :: "sqlval \<Rightarrow> bool" where
  "column_truthy SNull = False"
| "column_truthy (SNumber n) = number_truthy n"
| "column_truthy (SText s) = (s \<noteq> [])"

fun column_to_string :: "sqlval \<Rightarrow> jsstring" where
  "column_to_string SNull = ascii ''null''"
| "column_to_string (SNumber n) = number_to_string n"
| "column_to_string (SText s) = s"

text \<open>The value of \<^verbatim>\<open>row.notes\<close> and of \<^verbatim>\<open>row.tags\<close>.\<close>

definition text_value :: "jsstring option \<Rightarrow> jsval" where
  "text_value c = (case c of None \<Rightarrow> JNull | Some s \<Rightarrow> JStr s)"

text \<open>
  \<^verbatim>\<open>(notes && notes.trim())\<close> as a condition: the value is truthy and, trimmed, is
  not the empty string. The columns \<open>notes\<close> and \<open>tags\<close> hold a string or
  \<^verbatim>\<open>null\<close>.
\<close>

definition nonblank :: "jsstring option \<Rightarrow> bool" where
  "nonblank c \<longleftrightarrow> truthy (text_value c) \<and> truthy (JStr (trim (to_string (text_value c))))"

text \<open>The body of the \<^verbatim>\<open>forEach\<close>: the text one row adds to \<^verbatim>\<open>displayText\<close>.\<close>

definition format_row :: "row \<Rightarrow> jsstring" where
  "format_row r =
     (let rating_str =
            (if column_truthy (rating r)
             then rating_open @ column_to_string (rating r) @ ascii '')''
             else []);
          notes_str =
            (if nonblank (row_notes r)
             then notes_open @ to_string (text_value (row_notes r)) @ ascii '']''
             else []);
          tags_str =
            (if nonblank (tags r)
             then tags_open @ to_string (text_value (tags r)) @ ascii '']''
             else [])
      in bullet @ start_date r @ ascii '' ~ '' @ end_date r @ ascii '': '' @ media_title r @
         rating_str @ notes_str @ tags_str @ [10])"

text \<open>The result is what the callback receives: \<open>Inl\<close> the message of the error or
  \<open>Inr\<close> the text.\<close>

definition getAllViewingHistory :: "db \<Rightarrow> jsstring + jsstring" where
  "getAllViewingHistory d =
     (case db_all_ordered d of
        Inl err \<Rightarrow> Inl err
      | Inr rs \<Rightarrow>
          if length rs = 0 then Inr no_history
          else Inr (foldl (\<lambda>displayText r. displayText @ format_row r) list_header rs))"

text \<open>The handler of \<^verbatim>\<open>'get-history'\<close>: an error resolves to its message.\<close>

definition get_history :: "db \<Rightarrow> jsstring" where
  "get_history d = (case getAllViewingHistory d of Inl err \<Rightarrow> err | Inr text \<Rightarrow> text)"

section \<open>The enrichment client\<close>

subsection \<open>The values JSON.parse returns\<close>

text \<open>
  A parsed reply. An object is the list of its own properties, the first binding of a
  name being the property's value.
  \<^verbatim>\<open>JSON.parse\<close> itself belongs to the platform: it is the parameter \<open>parse\<close> of
  \<open>searchMediaWithGemini\<close>, \<open>None\<close> standing for the SyntaxError it throws.
\<close>

datatype json =
    JsonNull
  | JsonBool bool
  | JsonNum jsnumber
  | JsonStr jsstring
  | JsonArr "json list"
  | JsonObj "(jsstring \<times> json) list"

text \<open>What is thrown inside the inner \<^verbatim>\<open>try\<close> once the reply has parsed.\<close>

datatype js_error = TypeError

text \<open>
  \<^verbatim>\<open>info.summary\<close>, \<^verbatim>\<open>info.genre\<close>, \<^verbatim>\<open>info.streaming_sites\<close>: reading a property
  of \<^verbatim>\<open>null\<close> throws; an object gives its own property or \<^verbatim>\<open>undefined\<close>
  (\<open>None\<close>); a boolean, a number, a string and an array have no property of these three
  names and give \<^verbatim>\<open>undefined\<close>.
\<close>

fun read_property :: "json \<Rightarrow> jsstring \<Rightarrow> js_error + json option" where
  "read_property JsonNull k = Inl TypeError"
| "read_property (JsonObj kvs) k = Inr (map_of kvs k)"
| "read_property (JsonBool b) k = Inr None"
| "read_property (JsonNum n) k = Inr None"
| "read_property (JsonStr s) k = Inr None"
| "read_property (JsonArr xs) k = Inr None"

text \<open>ToBoolean of a parsed value; every array and every object is truthy.\<close>

fun json_truthy :: "json \<Rightarrow> bool" where
  "json_truthy JsonNull = False"
| "json_truthy (JsonBool b) = b"
| "json_truthy (JsonNum n) = number_truthy n"
| "json_truthy (JsonStr s) = (s \<noteq> [])"
| "json_truthy (JsonArr xs) = True"
| "json_truthy (JsonObj kvs) = True"

definition and_then :: "js_error + 'a \<Rightarrow> ('a \<Rightarrow> js_error + 'b) \<Rightarrow> js_error + 'b" where
  "and_then r f = (case r of Inl e \<Rightarrow> Inl e | Inr x \<Rightarrow> f x)"

text \<open>\<^verbatim>\<open>v ? f(v) : placeholder\<close>, and \<^verbatim>\<open>v || placeholder\<close> with \<open>f\<close> the
  conversion that follows: \<^verbatim>\<open>undefined\<close> (\<open>None\<close>) is falsy.\<close>

definition truthy_or ::
  "json option \<Rightarrow> (json \<Rightarrow> js_error + jsstring) \<Rightarrow> jsstring \<Rightarrow> js_error + jsstring" where
  "truthy_or v f placeholder =
     (case v of
        None \<Rightarrow> Inr placeholder
      | Some x \<Rightarrow> if json_truthy x then f x else Inr placeholder)"

text \<open>
  ToString of a parsed value, and \<^verbatim>\<open>Array.prototype.join\<close>. An array prints as its
  elements joined by commas; \<^verbatim>\<open>join\<close> prints \<^verbatim>\<open>null\<close> as the empty string. An
  object prints as \<^verbatim>\<open>[object Object]\<close> through the inherited \<^verbatim>\<open>toString\<close>; with
  an own property named \<^verbatim>\<open>toString\<close>, which is never a function in a parsed value,
  no conversion succeeds and a TypeError is thrown.
\<close>

fun json_to_string :: "json \<Rightarrow> js_error + jsstring"
  and join :: "jsstring \<Rightarrow> json list \<Rightarrow> js_error + jsstring" where
  "json_to_string JsonNull = Inr (ascii ''null'')"
| "json_to_string (JsonBool b) = Inr (if b then ascii ''true'' else ascii ''false'')"
| "json_to_string (JsonNum n) = Inr (number_to_string n)"
| "json_to_string (JsonStr s) = Inr s"
| "json_to_string (JsonArr xs) = join (ascii '','') xs"
| "json_to_string (JsonObj kvs) =
     (if map_of kvs (ascii ''toString'') \<noteq> None then Inl TypeError
      else Inr (ascii ''[object Object]''))"
| "join sep [] = Inr []"
| "join sep (x # xs) =
     and_then (if x = JsonNull then Inr [] else json_to_string x)
       (\<lambda>s. if xs = [] then Inr s else and_then (join sep xs) (\<lambda>rest. Inr (s @ sep @ rest)))"

text \<open>\<^verbatim>\<open>sites.map(site => `- ${site}`)\<close>: the strings, or the first error thrown.\<close>

fun bulleted :: "json list \<Rightarrow> js_error + json list" where
  "bulleted [] = Inr []"
| "bulleted (site # sites) =
     and_then (json_to_string site)
       (\<lambda>s. and_then (bulleted sites) (\<lambda>rest. Inr (JsonStr (ascii ''- '' @ s) # rest)))"

text \<open>\<^verbatim>\<open>info.genre.join(', ')\<close>: only an array has a method \<^verbatim>\<open>join\<close>; calling
  what is not a function throws.\<close>

fun call_join :: "json \<Rightarrow> jsstring \<Rightarrow> js_error + jsstring" where
  "call_join (JsonArr xs) sep = join sep xs"
| "call_join v sep = Inl TypeError"

text \<open>\<^verbatim>\<open>info.streaming_sites.map(site => `- ${site}`).join('\n')\<close>.\<close>

fun call_map_join :: "json \<Rightarrow> jsstring \<Rightarrow> js_error + jsstring" where
  "call_map_join (JsonArr xs) sep = and_then (bulleted xs) (\<lambda>ys. join sep ys)"
| "call_map_join v sep = Inl TypeError"

subsection \<open>Literals\<close>

text \<open>"Please enter a title."\<close>

definition enter_title :: jsstring where
  "enter_title =
     [20316, 21697, 21517, 12434, 20837, 21147, 12375, 12390, 12367, 12384, 12373, 12356, 12290]"

text \<open>The prompt before and after the title: it shows the JSON form to fill in, with a
  text describing each of \<^verbatim>\<open>summary\<close>, \<^verbatim>\<open>genre\<close> and \<^verbatim>\<open>streaming_sites\<close>, and
  ends "where no information is found, write 'No information was found.' in each item".\<close>

definition prompt_head :: jsstring where
  "prompt_head =
     [20197, 19979, 12398, 35, 35, 20316, 21697, 21517, 35, 35, 12395, 12388, 12356,
      12390, 12289, 25351, 23450, 12373, 12428, 12383, 35, 35, 74, 83, 79, 78, 24418,
      24335, 35, 35, 12391, 24773, 22577, 12434, 12414, 12392, 12417, 12390, 12367,
      12384, 12373, 12356, 12290, 10, 10, 35, 35, 20316, 21697, 21517, 35, 35, 10]"

definition prompt_tail :: jsstring where
  "prompt_tail =
     [10, 10, 35, 35, 74, 83, 79, 78, 24418, 24335, 35, 35, 10, 123, 10, 32, 32, 34,
      115, 117, 109, 109, 97, 114, 121, 34, 58, 32, 34, 20316, 21697, 12398, 27010,
      35201, 12434, 50, 48, 48, 25991, 23383, 31243, 24230, 12391, 35352, 36848,
      12375, 12390, 12367, 12384, 12373, 12356, 12290, 34, 44, 10, 32, 32, 34, 103,
      101, 110, 114, 101, 34, 58, 32, 34, 20316, 21697, 12398, 12472, 12515, 12531,
      12523, 12434, 35079, 25968, 35352, 36848, 12375, 12390, 12367, 12384, 12373,
      12356, 12290, 20363, 58, 32, 91, 39, 12501, 12449, 12531, 12479, 12472, 12540,
      39, 44, 32, 39, 20882, 38522, 39, 93, 34, 44, 10, 32, 32, 34, 115, 116, 114,
      101, 97, 109, 105, 110, 103, 95, 115, 105, 116, 101, 115, 34, 58, 32, 34, 26085,
      26412, 22269, 20869, 12391, 35222, 32884, 21487, 33021, 12394, 20027, 35201,
      12394, 21205, 30011, 37197, 20449, 12469, 12452, 12488, 12434, 12522, 12473,
      12488, 12391, 35352, 36848, 12375, 12390, 12367, 12384, 12373, 12356, 12290,
      20363, 58, 32, 91, 39, 78, 101, 116, 102, 108, 105, 120, 39, 44, 32, 39, 65,
      109, 97, 122, 111, 110, 32, 80, 114, 105, 109, 101, 32, 86, 105, 100, 101, 111,
      39, 44, 32, 39, 72, 117, 108, 117, 39, 93, 34, 10, 125, 10, 10, 24773, 22577,
      12364, 35211, 12388, 12363, 12425, 12394, 12356, 22580, 21512, 12399, 12289,
      21508, 38917, 30446, 12395, 12300, 24773, 22577, 12364, 35211, 12388, 12363,
      12426, 12414, 12379, 12435, 12391, 12375, 12383, 12290, 12301, 12392, 35352,
      36848, 12375, 12390, 12367, 12384, 12373, 12356, 12290]"

text \<open>"Work: '" and "' information" with a line feed; the rule of forty dashes.\<close>

definition work_open :: jsstring where
  "work_open = [20316, 21697, 58, 32, 39]"

definition info_close :: jsstring where
  "info_close = [39, 32, 12398, 24773, 22577, 10]"

definition separator :: jsstring where
  "separator = replicate 40 45 @ [10]"

text \<open>The headings "[Summary]", "[Genre]" and "[Main streaming sites]", each with a line
  feed, and the placeholder "no information".\<close>

definition summary_head :: jsstring where
  "summary_head = [12304, 27010, 35201, 12305, 10]"

definition genre_head :: jsstring where
  "genre_head = [12304, 12472, 12515, 12531, 12523, 12305, 10]"

definition sites_head :: jsstring where
  "sites_head = [12304, 20027, 12394, 37197, 20449, 12469, 12452, 12488, 12305, 10]"

definition no_info :: jsstring where
  "no_info = [24773, 22577, 12394, 12375]"

text \<open>A line feed and "(This information was generated by Gemini)".\<close>

definition attribution :: jsstring where
  "attribution =
     [10, 40, 12371, 12398, 24773, 22577, 12399, 71, 101, 109, 105, 110, 105, 12395, 12424,
      12387, 12390, 29983, 25104, 12373, 12428, 12414, 12375, 12383, 41]"

text \<open>"The response from Gemini could not be parsed.", an empty line, a rule of three
  dashes and a line feed.\<close>

definition unparseable :: jsstring where
  "unparseable =
     [71, 101, 109, 105, 110, 105, 12363, 12425, 12398, 24540, 31572, 12434, 35299, 26512,
      12391, 12365, 12414, 12379, 12435, 12391, 12375, 12383, 12290, 10, 10, 45, 45, 45, 10]"

text \<open>"' an error occurred while fetching the information." / "Check the API key
  setting and the network connection." / "(Error: ".\<close>

definition fetch_failed :: jsstring where
  "fetch_failed =
     [39, 32, 12398, 24773, 22577, 21462, 24471, 20013, 12395, 12456, 12521, 12540, 12364,
      30330, 29983, 12375, 12414, 12375, 12383, 12290, 10, 65, 80, 73, 12461, 12540, 12398,
      35373, 23450, 12420, 12493, 12483, 12488, 12527, 12540, 12463, 25509, 32154, 12434,
      30906, 35469, 12375, 12390, 12367, 12384, 12373, 12356, 12290, 10, 40, 12456, 12521,
      12540, 58, 32]"

subsection \<open>Stripping the code fence\<close>

text \<open>
  \<^verbatim>\<open>text.replace(/^```json\s*|```$/g, '')\<close>. The first alternative matches at index 0
  only (there is no \<^verbatim>\<open>m\<close> flag), when the text begins with three backticks and
  \<^verbatim>\<open>json\<close>, and takes all the white space that follows. The second alternative
  matches three backticks that end the text. The search goes from left to right:
  \<open>strip_closing\<close> is the search once index 0 is settled.
\<close>

definition fence :: jsstring where
  "fence = [96, 96, 96]"

definition fence_json :: jsstring where
  "fence_json = fence @ ascii ''json''"

fun strip_closing :: "jsstring \<Rightarrow> jsstring" where
  "strip_closing [] = []"
| "strip_closing (c # cs) = (if c # cs = fence then [] else c # strip_closing cs)"

definition strip_fences :: "jsstring \<Rightarrow> jsstring" where
  "strip_fences s =
     (if take (length fence_json) s = fence_json
      then strip_closing (dropWhile is_space (drop (length fence_json) s))
      else strip_closing s)"

subsection \<open>searchMediaWithGemini\<close>

text \<open>The statements of the inner \<^verbatim>\<open>try\<close> after \<^verbatim>\<open>JSON.parse\<close>: the formatted
  block, or the error thrown on the way.\<close>

definition format_info :: "jsval \<Rightarrow> json \<Rightarrow> js_error + jsstring" where
  "format_info mediaTitle info =
     and_then (read_property info (ascii ''summary'')) (\<lambda>summary.
     and_then (truthy_or summary json_to_string no_info) (\<lambda>summary_text.
     and_then (read_property info (ascii ''genre'')) (\<lambda>genre.
     and_then (truthy_or genre (\<lambda>g. call_join g (ascii '', '')) no_info) (\<lambda>genre_text.
     and_then (read_property info (ascii ''streaming_sites'')) (\<lambda>sites.
     and_then (truthy_or sites (\<lambda>l. call_map_join l [10]) no_info) (\<lambda>sites_text.
     Inr (work_open @ to_string mediaTitle @ info_close @
          separator @
          summary_head @ summary_text @ [10, 10] @
          genre_head @ genre_text @ [10, 10] @
          sites_head @ sites_text @ [10] @
          separator @
          attribution)))))))"

text \<open>The inner \<^verbatim>\<open>try\<close> and its \<^verbatim>\<open>catch\<close>, from the cleaned reply \<open>text\<close> to
  \<^verbatim>\<open>formattedResult\<close>: an error thrown by \<^verbatim>\<open>JSON.parse\<close> or by a later statement
  of the block ends in the same handler.\<close>

definition interpret_reply :: "(jsstring \<Rightarrow> json option) \<Rightarrow> jsval \<Rightarrow> jsstring \<Rightarrow> jsstring" where
  "interpret_reply parse mediaTitle text =
     (case parse text of
        None \<Rightarrow> unparseable @ text
      | Some info \<Rightarrow>
          (case format_info mediaTitle info of
             Inl parseError \<Rightarrow> unparseable @ text
           | Inr block \<Rightarrow> block))"

text \<open>
  \<open>searchMediaWithGemini parse service mediaTitle\<close>. The parameter \<open>service\<close> is lines
  117 to 120 up to \<^verbatim>\<open>response.text()\<close>: given the prompt it answers \<open>Inr\<close> the
  reply text, or \<open>Inl\<close> the message of the error thrown. The result is the text
  returned together with the prompts handed to the service, in order.
\<close>

definition searchMediaWithGemini ::
  "(jsstring \<Rightarrow> json option) \<Rightarrow> (jsstring \<Rightarrow> jsstring + jsstring) \<Rightarrow> jsval
     \<Rightarrow> jsstring \<times> jsstring list" where
  "searchMediaWithGemini parse service mediaTitle =
     (if \<not> truthy mediaTitle then (enter_title, [])
      else
        (let prompt = prompt_head @ to_string mediaTitle @ prompt_tail
         in case service prompt of
              Inl error_message \<Rightarrow>
                (work_open @ to_string mediaTitle @ fetch_failed @ error_message @ ascii '')'',
                 [prompt])
            | Inr reply \<Rightarrow>
                (let text = trim (strip_fences reply);
                     formattedResult = interpret_reply parse mediaTitle text
                 in (formattedResult, [prompt]))))"

section \<open>The specification's words\<close>

subsection \<open>The line of a record\<close>

text \<open>
  The line of a record in the specification's words: the rating suffix when a rating is
  present (the column is not NULL), the memo suffix when notes are present and not
  blank, the tag suffix when tags are present and not blank, in this order. A text is
  blank when all of it is white space.
\<close>

definition blank :: "jsstring \<Rightarrow> bool" where
  "blank s \<longleftrightarrow> list_all is_space s"

fun rating_text :: "sqlval \<Rightarrow> jsstring" where
  "rating_text SNull = []"
| "rating_text (SNumber n) = number_to_string n"
| "rating_text (SText s) = s"

definition spec_suffix :: "jsstring \<Rightarrow> jsstring option \<Rightarrow> jsstring" where
  "spec_suffix opening c =
     (case c of
        None \<Rightarrow> []
      | Some s \<Rightarrow> if blank s then [] else opening @ s @ ascii '']'')"

definition spec_line :: "row \<Rightarrow> jsstring" where
  "spec_line r =
     bullet @ start_date r @ ascii '' ~ '' @ end_date r @ ascii '': '' @ media_title r @
     (if rating r = SNull then [] else rating_open @ rating_text (rating r) @ ascii '')'') @
     spec_suffix notes_open (row_notes r) @
     spec_suffix tags_open (tags r) @
     [10]"

text \<open>A rating that is present and falsy: the number 0 (or \<^verbatim>\<open>NaN\<close>), or the empty
  text.\<close>

fun falsy_rating :: "sqlval \<Rightarrow> bool" where
  "falsy_rating SNull = False"
| "falsy_rating (SNumber (Int32 w)) = (w = 0)"
| "falsy_rating (SNumber (OtherNumber printed)) =
     (printed = ascii ''0'' \<or> printed = ascii ''NaN'')"
| "falsy_rating (SText s) = (s = [])"

subsection \<open>The cleaned reply\<close>

text \<open>
  The reply without its code fence, in words: an opening fence with the language tag
  \<^verbatim>\<open>json\<close> at the very start of the reply goes, together with the white space after
  it; then three backticks that end the text go; the rest is trimmed.
\<close>

definition without_opening :: "jsstring \<Rightarrow> jsstring" where
  "without_opening s = (if take 7 s = fence_json then dropWhile is_space (drop 7 s) else s)"

definition without_closing :: "jsstring \<Rightarrow> jsstring" where
  "without_closing s = (if take 3 (rev s) = fence then rev (drop 3 (rev s)) else s)"

definition cleaned_reply :: "jsstring \<Rightarrow> jsstring" where
  "cleaned_reply reply = trim (without_closing (without_opening reply))"

subsection \<open>The block of a lookup\<close>

text \<open>
  The block of a lookup in the specification's words: the title, a rule, the summary or
  the placeholder when it is absent, the genres joined by commas or the placeholder,
  the streaming sites as a bulleted list or the placeholder, a rule and the attribution.
\<close>

fun joined :: "jsstring \<Rightarrow> jsstring list \<Rightarrow> jsstring" where
  "joined sep [] = []"
| "joined sep [x] = x"
| "joined sep (x # y # ys) = x @ sep @ joined sep (y # ys)"

definition spec_block ::
  "jsval \<Rightarrow> jsstring option \<Rightarrow> jsstring list option \<Rightarrow> jsstring list option \<Rightarrow> jsstring" where
  "spec_block mediaTitle summary genres sites =
     work_open @ to_string mediaTitle @ info_close @
     separator @
     summary_head @ (case summary of None \<Rightarrow> no_info | Some s \<Rightarrow> s) @ [10, 10] @
     genre_head @ (case genres of None \<Rightarrow> no_info | Some gs \<Rightarrow> joined (ascii '', '') gs) @
       [10, 10] @
     sites_head @
       (case sites of None \<Rightarrow> no_info | Some ss \<Rightarrow> joined [10] (map (\<lambda>s. ascii ''- '' @ s) ss)) @
       [10] @
     separator @
     attribution"

section \<open>Sample data\<close>

definition sample_now :: string where
  "sample_now = ''2024-05-01T10:00:00.000Z''"

definition sample_rated :: row where
  "sample_rated =
     \<lparr>row_id = 1, media_title = ascii ''Dune'', start_date = ascii ''2024-03-01'',
      end_date = ascii ''2024-03-02'', rating = SNumber (Int32 8),
      row_notes = Some (ascii ''great''),
      recorded_at = ascii ''2024-03-02T20:15:00.000Z'', tags = Some (ascii ''drama'')\<rparr>"

definition sample_plain :: row where
  "sample_plain =
     \<lparr>row_id = 2, media_title = ascii ''Alien'', start_date = ascii ''2024-06-10'',
      end_date = ascii ''2024-06-10'', rating = SNull, row_notes = None,
      recorded_at = ascii ''2024-06-10T23:00:00.000Z'', tags = None\<rparr>"

text \<open>A record whose rating is the integer \<open>2 ^ 62\<close>: the driver hands back the nearest
  double, which prints with its last digits rounded.\<close>

definition sample_wide :: row where
  "sample_wide =
     \<lparr>row_id = 3, media_title = ascii ''Solaris'', start_date = ascii ''2024-02-01'',
      end_date = ascii ''2024-02-02'',
      rating = SNumber (OtherNumber (ascii ''4611686018427388000'')), row_notes = Some [12288],
      recorded_at = ascii ''2024-02-02T08:00:00.000Z'', tags = None\<rparr>"

definition sample_zero :: row where
  "sample_zero =
     \<lparr>row_id = 1, media_title = ascii ''Cats'', start_date = ascii ''2024-01-05'',
      end_date = ascii ''2024-01-05'', rating = SNumber (Int32 0), row_notes = None,
      recorded_at = ascii ''2024-01-05T21:00:00.000Z'', tags = None\<rparr>"

definition zero_input :: jsobject where
  "zero_input =
     [''mediaTitle'' \<mapsto> JStr (ascii ''Cats''), ''startDate'' \<mapsto> JStr (ascii ''2024-01-05''),
      ''endDate'' \<mapsto> JStr (ascii ''2024-01-05''), ''rating'' \<mapsto> JNum 0]"

definition sample_db :: db where
  "sample_db = \<lparr>rows = [sample_rated, sample_plain], last_id = 2, fault = None\<rparr>"

definition listing_db :: db where
  "listing_db = \<lparr>rows = [sample_rated, sample_plain, sample_wide], last_id = 3, fault = None\<rparr>"

definition empty_db :: db where
  "empty_db = \<lparr>rows = [], last_id = 0, fault = None\<rparr>"

definition sample_input :: jsobject where
  "sample_input =
     [''mediaTitle'' \<mapsto> JStr (ascii ''Heat''), ''startDate'' \<mapsto> JStr (ascii ''2024-04-30''),
      ''endDate'' \<mapsto> JStr (ascii ''2024-05-01''), ''rating'' \<mapsto> JNum 9]"

definition blank_input :: jsobject where
  "blank_input =
     [''mediaTitle'' \<mapsto> JStr [32, 32], ''startDate'' \<mapsto> JStr [9], ''endDate'' \<mapsto> JStr [12288]]"

text \<open>An input whose title is a lone high surrogate.\<close>

definition lone_input :: jsobject where
  "lone_input =
     [''mediaTitle'' \<mapsto> JStr [55296], ''startDate'' \<mapsto> JStr (ascii ''2024-01-05''),
      ''endDate'' \<mapsto> JStr (ascii ''2024-01-05'')]"

definition no_numbers :: "jsstring \<Rightarrow> jsnumber option" where
  "no_numbers s = None"

text \<open>Replies of the service and what \<^verbatim>\<open>JSON.parse\<close> makes of their cleaned texts.
  \<open>sentinel_text\<close> is the JSON object that the prompt asks for when nothing is known
  about the title: each of the three items holds the text "No information was found.".
  \<open>example_text\<close> is the reply of the specification's example.
  \<open>sample_parse\<close> is \<^verbatim>\<open>JSON.parse\<close> on these texts and on \<^verbatim>\<open>{}\<close>, and rejects
  every other text: it stands for the parser in the examples only.\<close>

definition quoted :: "jsstring \<Rightarrow> jsstring" where
  "quoted s = [34] @ s @ [34]"

definition sentinel :: jsstring where
  "sentinel =
     [24773, 22577, 12364, 35211, 12388, 12363, 12426, 12414, 12379, 12435, 12391, 12375, 12383,
      12290]"

definition sentinel_text :: jsstring where
  "sentinel_text =
     ascii ''{'' @ quoted (ascii ''summary'') @ ascii '':'' @ quoted sentinel @ ascii '','' @
     quoted (ascii ''genre'') @ ascii '':'' @ quoted sentinel @ ascii '','' @
     quoted (ascii ''streaming_sites'') @ ascii '':'' @ quoted sentinel @ ascii ''}''"

definition sentinel_info :: json where
  "sentinel_info =
     JsonObj [(ascii ''summary'', JsonStr sentinel), (ascii ''genre'', JsonStr sentinel),
              (ascii ''streaming_sites'', JsonStr sentinel)]"

definition example_text :: jsstring where
  "example_text =
     ascii ''{'' @ quoted (ascii ''summary'') @ ascii '':'' @ quoted (ascii ''S'') @ ascii '','' @
     quoted (ascii ''genre'') @ ascii '':['' @ quoted (ascii ''A'') @ ascii '','' @
     quoted (ascii ''B'') @ ascii ''],'' @
     quoted (ascii ''streaming_sites'') @ ascii '':['' @ quoted (ascii ''Netflix'') @ ascii '']}''"

definition example_info :: json where
  "example_info =
     JsonObj [(ascii ''summary'', JsonStr (ascii ''S'')),
              (ascii ''genre'', JsonArr [JsonStr (ascii ''A''), JsonStr (ascii ''B'')]),
              (ascii ''streaming_sites'', JsonArr [JsonStr (ascii ''Netflix'')])]"

definition sample_parse :: "jsstring \<Rightarrow> json option" where
  "sample_parse text =
     (if text = sentinel_text then Some sentinel_info
      else if text = example_text then Some example_info
      else if text = ascii ''{}'' then Some (JsonObj [])
      else None)"

definition replying :: "jsstring \<Rightarrow> jsstring \<Rightarrow> jsstring + jsstring" where
  "replying reply prompt = Inr reply"

definition failing :: "jsstring \<Rightarrow> jsstring \<Rightarrow> jsstring + jsstring" where
  "failing error_message prompt = Inl error_message"

definition show_x :: jsval where
  "show_x = JStr (ascii ''Show X'')"

section \<open>Validation failures of recordViewingHistory\<close>

text \<open>
  C1. When \<open>mediaTitle\<close>, \<open>startDate\<close> or \<open>endDate\<close> is missing from the input or is
  the empty string, \<open>recordViewingHistory\<close> hands the callback the result object with
  \<open>success = False\<close> and the fixed message, not an error, and the database is the one
  it was given: no row is stored. This holds whatever the engine's condition is.
\<close>

theorem record_rejects_missing_fields:
  assumes "get_prop data ''mediaTitle'' \<in> {JUndefined, JStr []}
         \<or> get_prop data ''startDate'' \<in> {JUndefined, JStr []}
         \<or> get_prop data ''endDate'' \<in> {JUndefined, JStr []}"
  shows "recordViewingHistory numeric now data d =
           (Inr \<lparr>success = False, message = validation_message\<rparr>, d)"
proof -
  from assms have "\<not> truthy (get_prop data ''mediaTitle'') \<or> \<not> truthy (get_prop data ''startDate'')
      \<or> \<not> truthy (get_prop data ''endDate'')"
    by auto
  then show ?thesis
    unfolding recordViewingHistory_def Let_def by (simp only: if_True)
qed

theorem record_rejects_missing_fields_witness:
  "get_prop (sample_input(''endDate'' \<mapsto> JStr [])) ''endDate'' \<in> {JUndefined, JStr []} \<and>
   recordViewingHistory no_numbers sample_now (sample_input(''endDate'' \<mapsto> JStr [])) sample_db =
     (Inr \<lparr>success = False, message = validation_message\<rparr>, sample_db)"
  using record_rejects_missing_fields
    [of "sample_input(''endDate'' \<mapsto> JStr [])" no_numbers sample_now sample_db]
  by (simp add: get_prop_def)

section \<open>The order of the listing\<close>

lemma foldl_append_concat:
  "foldl (\<lambda>acc r. acc @ f r) acc rs = acc @ concat (map f rs)"
  by (induction rs arbitrary: acc) simp_all

lemma set_insert_desc: "set (insert_desc x xs) = insert x (set xs)"
  by (induction xs) auto

lemma mset_insert_desc: "mset (insert_desc x xs) = add_mset x (mset xs)"
  by (induction xs) auto

lemma mset_order_by: "mset (order_by_recorded_at_desc rs) = mset rs"
  unfolding order_by_recorded_at_desc_def by (induction rs) (simp_all add: mset_insert_desc)

lemma set_order_by: "set (order_by_recorded_at_desc rs) = set rs"
  by (rule mset_eq_setD [OF mset_order_by])

lemma sorted_insert_desc:
  "sorted_wrt (\<lambda>a b. sort_key b \<le> sort_key a) xs \<Longrightarrow>
   sorted_wrt (\<lambda>a b. sort_key b \<le> sort_key a) (insert_desc x xs)"
  by (induction xs) (auto simp: set_insert_desc)

lemma sorted_order_by:
  "sorted_wrt (\<lambda>a b. sort_key b \<le> sort_key a) (order_by_recorded_at_desc rs)"
  unfolding order_by_recorded_at_desc_def by (induction rs) (simp_all add: sorted_insert_desc)



section \<open>The lines of the listing\<close>

lemma trim_Nil_iff: "trim s = [] \<longleftrightarrow> blank s"
proof
  assume "trim s = []"
  then have "dropWhile is_space (rev (dropWhile is_space s)) = []"
    by (simp add: trim_def)
  then have all: "\<forall>x\<in>set (dropWhile is_space s). is_space x"
    by simp
  have "dropWhile is_space s = []"
  proof (cases "dropWhile is_space s")
    case Nil
    then show ?thesis .
  next
    case (Cons y ys)
    then have "\<not> is_space y" by (metis hd_dropWhile list.sel(1) list.distinct(1))
    moreover from Cons all have "is_space y" by simp
    ultimately show ?thesis by simp
  qed
  then show "blank s"
    by (simp add: blank_def list_all_iff)
next
  assume "blank s"
  then show "trim s = []"
    by (auto simp: blank_def trim_def list_all_iff dest: set_dropWhileD)
qed

lemma nonblank_iff: "nonblank c \<longleftrightarrow> (\<exists>s. c = Some s \<and> \<not> blank s)"
proof (cases c)
  case None
  then show ?thesis by (simp add: nonblank_def text_value_def)
next
  case (Some s)
  have "blank s" if "s = []" using that by (simp add: blank_def)
  with Some show ?thesis
    by (auto simp: nonblank_def text_value_def trim_Nil_iff)
qed

lemma suffix_as_specified:
  "(if nonblank c then opening @ to_string (text_value c) @ ascii '']'' else []) =
   spec_suffix opening c"
  by (cases c) (auto simp: nonblank_iff spec_suffix_def text_value_def)

text \<open>The line the code writes is the specified line, except that a falsy rating (the
  number 0, the empty text) is written like no rating.\<close>

lemma format_row_as_specified:
  "format_row r = spec_line (if falsy_rating (rating r) then r\<lparr>rating := SNull\<rparr> else r)"
proof -
  have rating_part:
    "(if column_truthy (rating r)
      then rating_open @ column_to_string (rating r) @ ascii '')'' else []) =
     (if rating r = SNull \<or> falsy_rating (rating r) then []
      else rating_open @ rating_text (rating r) @ ascii '')'')"
  proof (cases "rating r")
    case SNull
    then show ?thesis by simp
  next
    case (SNumber n)
    then show ?thesis by (cases n) auto
  next
    case (SText s)
    then show ?thesis by auto
  qed
  show ?thesis
    unfolding format_row_def Let_def suffix_as_specified rating_part
    by (simp add: spec_line_def)
qed

text \<open>
  C3, as the claim states it, fails: the record \<open>sample_zero\<close> has the rating 0, which
  is present, and its line carries no rating suffix, so it is not the specified line.
  The record is the one that \<open>recordViewingHistory\<close> stores for an input with the
  rating 0, and the whole listing of the store holding it is the header and that line.
\<close>

theorem listing_zero_rating_counterexample:
  "rating sample_zero = SNumber (Int32 0) \<and>
   format_row sample_zero \<noteq> spec_line sample_zero \<and>
   snd (recordViewingHistory no_numbers ''2024-01-05T21:00:00.000Z'' zero_input empty_db) =
     \<lparr>rows = [sample_zero], last_id = 1, fault = None\<rparr> \<and>
   getAllViewingHistory \<lparr>rows = [sample_zero], last_id = 1, fault = None\<rparr> =
     Inr (list_header @ bullet @ ascii ''2024-01-05 ~ 2024-01-05: Cats'' @ [10])"
  by (simp add: sample_zero_def format_row_def spec_line_def spec_suffix_def nonblank_def
      text_value_def getAllViewingHistory_def db_all_ordered_def order_by_recorded_at_desc_def
      ascii_def bullet_def rating_open_def int32_to_string_def digits.simps
      recordViewingHistory_def db_run_insert_def zero_input_def empty_db_def get_prop_def
      is_high_def is_low_def)

text \<open>
  C3, amended. For every store that holds at least one record and whose engine answers,
  \<open>getAllViewingHistory\<close> returns the header line followed by one entry per record,
  each ended by a line feed, the records taken by \<open>recorded_at\<close> descending. The entry of
  a record is the specified line: the bullet, start date, \<^verbatim>\<open> ~ \<close>, end date,
  \<^verbatim>\<open>: \<close>, the title, then the rating suffix when the rating is present and truthy
  (neither the number 0 nor the empty text), then the memo suffix when notes are present
  and not blank, then the tag suffix when tags are present and not blank. A record with
  no rating, no notes and no tags has an entry with no suffix.
\<close>

theorem listing_format:
  assumes "fault d = None" and "rows d \<noteq> []"
  shows "getAllViewingHistory d =
           Inr (list_header @ concat (map format_row (order_by_recorded_at_desc (rows d)))) \<and>
         mset (order_by_recorded_at_desc (rows d)) = mset (rows d) \<and>
         sorted_wrt (\<lambda>a b. sort_key b \<le> sort_key a) (order_by_recorded_at_desc (rows d)) \<and>
         (\<forall>r. format_row r =
               spec_line (if falsy_rating (rating r) then r\<lparr>rating := SNull\<rparr> else r)) \<and>
         (\<forall>r. rating r = SNull \<and> row_notes r = None \<and> tags r = None \<longrightarrow>
               format_row r =
                 bullet @ start_date r @ ascii '' ~ '' @ end_date r @ ascii '': '' @
                 media_title r @ [10])"
proof -
  from assms(2) have "order_by_recorded_at_desc (rows d) \<noteq> []"
    using set_order_by [of "rows d"] by (metis set_empty)
  with assms(1) have "getAllViewingHistory d =
      Inr (list_header @ concat (map format_row (order_by_recorded_at_desc (rows d))))"
    by (simp add: getAllViewingHistory_def db_all_ordered_def foldl_append_concat)
  moreover have "\<forall>r. rating r = SNull \<and> row_notes r = None \<and> tags r = None \<longrightarrow>
      format_row r =
        bullet @ start_date r @ ascii '' ~ '' @ end_date r @ ascii '': '' @ media_title r @ [10]"
    by (simp add: format_row_as_specified spec_line_def spec_suffix_def)
  ultimately show ?thesis
    using mset_order_by sorted_order_by format_row_as_specified by blast
qed

theorem listing_format_witness:
  "fault listing_db = None \<and> rows listing_db \<noteq> [] \<and>
   getAllViewingHistory listing_db =
     Inr (list_header @
          bullet @ ascii ''2024-06-10 ~ 2024-06-10: Alien'' @ [10] @
          bullet @ ascii ''2024-03-01 ~ 2024-03-02: Dune'' @
            rating_open @ ascii ''8)'' @ notes_open @ ascii ''great]'' @
            tags_open @ ascii ''drama]'' @ [10] @
          bullet @ ascii ''2024-02-01 ~ 2024-02-02: Solaris'' @
            rating_open @ ascii ''4611686018427388000)'' @ [10])"
  using listing_format [of listing_db]
  by (simp add: listing_db_def sample_rated_def sample_plain_def sample_wide_def
      order_by_recorded_at_desc_def sort_key_def is_high_def is_low_def
      spec_line_def spec_suffix_def blank_def is_space_def ascii_def int32_to_string_def
      digits.simps)

text \<open>
  C4. When the store holds no record (and the engine answers the query),
  \<open>getAllViewingHistory\<close> returns exactly the fixed message that there is no history
  yet: neither an empty text nor the header of a listing.
\<close>

theorem listing_empty_store:
  assumes "fault d = None" and "rows d = []"
  shows "getAllViewingHistory d = Inr no_history"
  using assms
  by (simp add: getAllViewingHistory_def db_all_ordered_def order_by_recorded_at_desc_def)

theorem listing_empty_store_witness:
  "fault empty_db = None \<and> rows empty_db = [] \<and> getAllViewingHistory empty_db = Inr no_history"
  using listing_empty_store [of empty_db] by (simp add: empty_db_def)

section \<open>Recording a valid input\<close>

text \<open>A well-formed string is stored as it is; so is every ASCII text, a timestamp among
  them.\<close>

lemma stored_text_well_formed: "well_formed s \<Longrightarrow> stored_text s = s"
  by (induction s rule: stored_text.induct) (auto split: if_splits)

lemma well_formed_below: "\<forall>c\<in>set s. c < 55296 \<Longrightarrow> well_formed s"
  by (induction s rule: well_formed.induct) (auto simp: is_high_def is_low_def)

lemma stored_text_ascii: "stored_text (ascii s) = ascii s"
proof -
  have "c < 55296" if "c \<in> set (ascii s)" for c
  proof -
    from that obtain x where c: "c = of_char x" by (auto simp: ascii_def)
    have "of_char x < (256 :: nat)" by (rule nat_of_char_less_256)
    then have "of_char x < (55296 :: nat)" by (rule less_trans) simp
    with c show ?thesis by (simp only:)
  qed
  then show ?thesis by (intro stored_text_well_formed well_formed_below) blast
qed

text \<open>
  What \<open>recordViewingHistory\<close> does when the three required fields are non-empty
  strings: the validation lets the input through, and the outcome is the engine's.
\<close>

lemma record_on_strings:
  assumes "get_prop data ''mediaTitle'' = JStr t" and "t \<noteq> []"
    and "get_prop data ''startDate'' = JStr s" and "s \<noteq> []"
    and "get_prop data ''endDate'' = JStr e" and "e \<noteq> []"
  shows "recordViewingHistory numeric now data d =
     (case fault d of
        Some msg \<Rightarrow> (Inl msg, d)
      | None \<Rightarrow>
          (Inr \<lparr>success = True, message = recorded_prefix @ t @ [39]\<rparr>,
           d\<lparr>rows := rows d @
                [\<lparr>row_id = Suc (last_id d), media_title = stored_text t,
                  start_date = stored_text s, end_date = stored_text e,
                  rating = integer_column numeric (get_prop data ''rating''),
                  row_notes = text_column (get_prop data ''notes''), recorded_at = ascii now,
                  tags = text_column (get_prop data ''tags'')\<rparr>],
              last_id := Suc (last_id d)\<rparr>))"
  using assms
  by (simp add: recordViewingHistory_def db_run_insert_def stored_text_ascii
      split: option.splits)



text \<open>
  C10, as the claim states it, fails: the title made of a lone surrogate is a non-empty
  string and passes the validation, but the row stored for it holds U+FFFD, not the
  title.
\<close>

theorem record_lone_surrogate_counterexample:
  "get_prop lone_input ''mediaTitle'' = JStr [55296] \<and>
   map media_title
     (rows (snd (recordViewingHistory no_numbers ''2024-01-05T21:00:00.000Z'' lone_input empty_db))) =
     [[65533]]"
  by (simp add: recordViewingHistory_def db_run_insert_def lone_input_def empty_db_def
      get_prop_def ascii_def is_high_def is_low_def)

text \<open>
  C10, amended. The validation looks at truthiness only. For every input whose
  \<open>mediaTitle\<close>, \<open>startDate\<close> and \<open>endDate\<close> are non-empty strings, strings of white
  space included, the result is not the validation failure, and when the engine carries
  out the insertion the new row holds the three strings as the database stores a
  string, untrimmed: letter for letter when the string is well formed, and with U+FFFD
  in the place of each lone surrogate otherwise.
\<close>

theorem record_checks_truthiness_only:
  assumes "get_prop data ''mediaTitle'' = JStr t" and "t \<noteq> []"
    and "get_prop data ''startDate'' = JStr s" and "s \<noteq> []"
    and "get_prop data ''endDate'' = JStr e" and "e \<noteq> []"
  shows "fst (recordViewingHistory numeric now data d) \<noteq>
           Inr \<lparr>success = False, message = validation_message\<rparr> \<and>
         (fault d = None \<longrightarrow>
            (\<exists>r. rows (snd (recordViewingHistory numeric now data d)) = rows d @ [r] \<and>
                 media_title r = stored_text t \<and> start_date r = stored_text s \<and>
                 end_date r = stored_text e \<and>
                 (well_formed t \<longrightarrow> media_title r = t) \<and>
                 (well_formed s \<longrightarrow> start_date r = s) \<and>
                 (well_formed e \<longrightarrow> end_date r = e)))"
  using record_on_strings [OF assms, of numeric now d]
  by (auto split: option.splits simp: stored_text_well_formed)

theorem record_checks_truthiness_only_witness:
  "get_prop blank_input ''mediaTitle'' = JStr [32, 32] \<and> [32, 32] \<noteq> ([] :: jsstring) \<and>
   get_prop blank_input ''startDate'' = JStr [9] \<and> [9] \<noteq> ([] :: jsstring) \<and>
   get_prop blank_input ''endDate'' = JStr [12288] \<and> [12288] \<noteq> ([] :: jsstring) \<and>
   fault empty_db = None \<and> well_formed [32, 32] \<and> well_formed [9] \<and> well_formed [12288] \<and>
   fst (recordViewingHistory no_numbers sample_now blank_input empty_db) =
     Inr \<lparr>success = True, message = recorded_prefix @ [32, 32, 39]\<rparr> \<and>
   map media_title
     (rows (snd (recordViewingHistory no_numbers sample_now blank_input empty_db))) = [[32, 32]] \<and>
   map start_date
     (rows (snd (recordViewingHistory no_numbers sample_now blank_input empty_db))) = [[9]] \<and>
   map end_date
     (rows (snd (recordViewingHistory no_numbers sample_now blank_input empty_db))) = [[12288]]"
proof -
  have h1: "get_prop blank_input ''mediaTitle'' = JStr [32, 32]"
    and h2: "[32, 32] \<noteq> ([] :: jsstring)"
    and h3: "get_prop blank_input ''startDate'' = JStr [9]"
    and h4: "[9] \<noteq> ([] :: jsstring)"
    and h5: "get_prop blank_input ''endDate'' = JStr [12288]"
    and h6: "[12288] \<noteq> ([] :: jsstring)"
    and h7: "fault empty_db = None"
    and wf: "well_formed [32, 32]" "well_formed [9]" "well_formed [12288]"
    by (simp_all add: blank_input_def empty_db_def get_prop_def is_high_def is_low_def)
  note main = record_checks_truthiness_only [OF h1 h2 h3 h4 h5 h6,
      of no_numbers sample_now empty_db]
  from main [THEN conjunct2, rule_format, OF h7]
  obtain r where row:
    "rows (snd (recordViewingHistory no_numbers sample_now blank_input empty_db)) =
       rows empty_db @ [r] \<and>
     media_title r = stored_text [32, 32] \<and> start_date r = stored_text [9] \<and>
     end_date r = stored_text [12288] \<and>
     (well_formed [32, 32] \<longrightarrow> media_title r = [32, 32]) \<and>
     (well_formed [9] \<longrightarrow> start_date r = [9]) \<and>
     (well_formed [12288] \<longrightarrow> end_date r = [12288])" ..
  with wf have "rows (snd (recordViewingHistory no_numbers sample_now blank_input empty_db)) =
       rows empty_db @ [r]"
    and "media_title r = [32, 32]" and "start_date r = [9]" and "end_date r = [12288]"
    by simp_all
  then have stored:
    "map media_title
       (rows (snd (recordViewingHistory no_numbers sample_now blank_input empty_db))) = [[32, 32]]"
    "map start_date
       (rows (snd (recordViewingHistory no_numbers sample_now blank_input empty_db))) = [[9]]"
    "map end_date
       (rows (snd (recordViewingHistory no_numbers sample_now blank_input empty_db))) = [[12288]]"
    by (simp_all add: empty_db_def)
  have result: "fst (recordViewingHistory no_numbers sample_now blank_input empty_db) =
     Inr \<lparr>success = True, message = recorded_prefix @ [32, 32, 39]\<rparr>"
    using record_on_strings [OF h1 h2 h3 h4 h5 h6, of no_numbers sample_now empty_db] h7
    by simp
  from h1 h2 h3 h4 h5 h6 h7 wf result stored show ?thesis by (intro conjI)
qed

section \<open>The enrichment client: short circuit and transport failure\<close>

text \<open>
  C9. For a title that is absent (\<^verbatim>\<open>undefined\<close> or \<^verbatim>\<open>null\<close>) or the empty
  string, \<open>searchMediaWithGemini\<close> returns the fixed request to enter a title and
  hands no prompt to the service.
\<close>

theorem lookup_empty_title:
  assumes "mediaTitle = JUndefined \<or> mediaTitle = JNull \<or> mediaTitle = JStr []"
  shows "searchMediaWithGemini parse service mediaTitle = (enter_title, [])"
  using assms by (auto simp: searchMediaWithGemini_def)

theorem lookup_empty_title_witness:
  "(JStr [] = JUndefined \<or> JStr [] = JNull \<or> JStr [] = JStr []) \<and>
   searchMediaWithGemini sample_parse (replying example_text) (JStr []) = (enter_title, [])"
  using lookup_empty_title [of "JStr []" sample_parse "replying example_text"] by simp

text \<open>
  C8. When the call of the service fails with an error, \<open>searchMediaWithGemini\<close>
  returns a text: it names the requested title, says that fetching failed, suggests
  checking the API key and the network connection, and quotes the error's message.
  The function returns this value; the error goes no further.
\<close>

theorem lookup_service_failure:
  assumes "truthy mediaTitle"
    and "service (prompt_head @ to_string mediaTitle @ prompt_tail) = Inl error_message"
  shows "searchMediaWithGemini parse service mediaTitle =
           (work_open @ to_string mediaTitle @ fetch_failed @ error_message @ ascii '')'',
            [prompt_head @ to_string mediaTitle @ prompt_tail])"
  using assms by (simp add: searchMediaWithGemini_def)

theorem lookup_service_failure_witness:
  "truthy show_x \<and>
   failing (ascii ''fetch failed'') (prompt_head @ to_string show_x @ prompt_tail) =
     Inl (ascii ''fetch failed'') \<and>
   searchMediaWithGemini sample_parse (failing (ascii ''fetch failed'')) show_x =
     (work_open @ ascii ''Show X'' @ fetch_failed @ ascii ''fetch failed)'',
      [prompt_head @ ascii ''Show X'' @ prompt_tail])"
  using lookup_service_failure [of show_x "failing (ascii ''fetch failed'')"
      "ascii ''fetch failed''" sample_parse]
  by (simp add: show_x_def failing_def ascii_def)

section \<open>The enrichment client: code fences\<close>

lemma strip_closing_fence: "strip_closing (xs @ fence) = xs"
proof (induction xs)
  case Nil
  show ?case by (simp add: fence_def)
next
  case (Cons x xs)
  have "length (x # xs @ fence) \<noteq> length fence" by simp
  then have "x # xs @ fence \<noteq> fence" by metis
  with Cons show ?case by simp
qed

lemma not_space_backtick: "\<not> is_space 96"
  by (simp add: is_space_def)

lemma dropWhile_space_fence:
  "dropWhile is_space (xs @ fence) = dropWhile is_space xs @ fence"
  by (induction xs) (simp_all add: fence_def not_space_backtick)

lemma dropWhile_blank: "blank ws \<Longrightarrow> dropWhile is_space (ws @ xs) = dropWhile is_space xs"
  by (induction ws) (simp_all add: blank_def)

lemma trim_dropWhile: "trim (dropWhile is_space xs) = trim xs"
  by (simp add: trim_def)

lemma trim_append_blank:
  assumes "blank ws"
  shows "trim (xs @ ws) = trim xs"
proof (cases "\<forall>x\<in>set xs. is_space x")
  case True
  then have "blank (xs @ ws)" "blank xs"
    using assms by (auto simp: blank_def list_all_iff)
  then have "trim (xs @ ws) = []" and "trim xs = []"
    by (simp_all add: trim_Nil_iff)
  then show ?thesis by simp
next
  case False
  then obtain x where "x \<in> set xs" and "\<not> is_space x" by blast
  then have "dropWhile is_space (xs @ ws) = dropWhile is_space xs @ ws"
    by (rule dropWhile_append1)
  moreover have "dropWhile is_space (rev ws @ ys) = dropWhile is_space ys" for ys
    using assms by (intro dropWhile_blank) (simp add: blank_def list_all_iff)
  ultimately show ?thesis by (simp add: trim_def)
qed

lemma clean_fenced:
  assumes "blank ws1" and "blank ws2"
  shows "trim (strip_fences (fence_json @ ws1 @ body @ ws2 @ fence)) = trim body"
proof -
  have "strip_fences (fence_json @ ws1 @ body @ ws2 @ fence) =
      strip_closing (dropWhile is_space (ws1 @ body @ ws2 @ fence))"
    by (simp add: strip_fences_def)
  also have "\<dots> = strip_closing (dropWhile is_space ((body @ ws2) @ fence))"
    using assms(1) by (simp add: dropWhile_blank)
  also have "\<dots> = dropWhile is_space (body @ ws2)"
    by (simp only: dropWhile_space_fence strip_closing_fence)
  finally show ?thesis
    using assms(2) by (simp add: trim_dropWhile trim_append_blank)
qed

text \<open>The search for the closing fence removes three backticks that end the text and
  nothing else, and the cleaning of line 120 is the cleaning put in words.\<close>

lemma ends_with_fence:
  assumes "take 3 (rev s) = fence"
  shows "s = rev (drop 3 (rev s)) @ fence"
proof -
  have "rev s = take 3 (rev s) @ drop 3 (rev s)" by simp
  with assms have "rev s = fence @ drop 3 (rev s)" by simp
  then have "rev (rev s) = rev (fence @ drop 3 (rev s))" by (rule arg_cong)
  then show ?thesis by (simp add: fence_def)
qed

lemma strip_closing_other: "take 3 (rev s) \<noteq> fence \<Longrightarrow> strip_closing s = s"
proof (induction s)
  case Nil
  show ?case by simp
next
  case (Cons c cs)
  have "c # cs \<noteq> fence"
    using Cons.prems by (auto simp: fence_def)
  moreover have "take 3 (rev cs) \<noteq> fence"
  proof
    assume ends: "take 3 (rev cs) = fence"
    then have "length (take 3 (rev cs)) = length fence" by (rule arg_cong)
    then have "min (length cs) 3 = 3" by (simp add: fence_def)
    then have "3 \<le> length (rev cs)" by simp
    then have "take 3 (rev (c # cs)) = take 3 (rev cs)" by simp
    with ends Cons.prems show False by simp
  qed
  ultimately show ?case using Cons.IH by simp
qed

lemma without_closing_fence: "without_closing (xs @ fence) = xs"
  by (simp add: without_closing_def fence_def)

lemma strip_closing_as_specified: "strip_closing s = without_closing s"
proof (cases "take 3 (rev s) = fence")
  case True
  from ends_with_fence [OF True] obtain xs where "s = xs @ fence" ..
  then show ?thesis by (simp only: strip_closing_fence without_closing_fence)
next
  case False
  then show ?thesis by (simp add: strip_closing_other without_closing_def)
qed

lemma clean_as_specified: "trim (strip_fences reply) = cleaned_reply reply"
proof -
  have "length fence_json = 7" by (simp add: fence_json_def fence_def ascii_def)
  then show ?thesis
    by (simp add: strip_fences_def cleaned_reply_def without_opening_def
        strip_closing_as_specified)
qed

lemma cleaned_fenced:
  assumes "blank ws1" and "blank ws2"
  shows "cleaned_reply (fence_json @ ws1 @ body @ ws2 @ fence) = trim body"
  using clean_fenced [OF assms] by (simp only: clean_as_specified)

lemma cleaned_opening_only:
  assumes "blank ws" and "take 3 (rev body) \<noteq> fence"
  shows "cleaned_reply (fence_json @ ws @ body) = trim body"
proof -
  have "length fence_json = 7" by (simp add: fence_json_def fence_def ascii_def)
  then have "without_opening (fence_json @ ws @ body) = dropWhile is_space body"
    using assms(1) by (simp add: without_opening_def dropWhile_blank)
  moreover have "take 3 (rev (dropWhile is_space body)) \<noteq> fence"
  proof
    assume "take 3 (rev (dropWhile is_space body)) = fence"
    from ends_with_fence [OF this] obtain xs where "dropWhile is_space body = xs @ fence" ..
    then have "takeWhile is_space body @ dropWhile is_space body =
        (takeWhile is_space body @ xs) @ fence"
      by simp
    then have "body = (takeWhile is_space body @ xs) @ fence"
      by (simp only: takeWhile_dropWhile_id)
    then have "take 3 (rev body) = take 3 (rev ((takeWhile is_space body @ xs) @ fence))"
      by (rule arg_cong)
    then have "take 3 (rev body) = fence"
      by (simp add: fence_def)
    with assms(2) show False by simp
  qed
  ultimately show ?thesis
    by (simp add: cleaned_reply_def without_closing_def trim_dropWhile)
qed

lemma cleaned_closing_only:
  assumes "take 7 (body @ fence) \<noteq> fence_json"
  shows "cleaned_reply (body @ fence) = trim body"
  using assms by (simp add: cleaned_reply_def without_opening_def without_closing_fence)

lemma cleaned_plain:
  assumes "take 7 reply \<noteq> fence_json" and "take 3 (rev reply) \<noteq> fence"
  shows "cleaned_reply reply = trim reply"
  using assms by (simp add: cleaned_reply_def without_opening_def without_closing_def)

lemma lookup_reply:
  assumes "truthy mediaTitle"
    and "service (prompt_head @ to_string mediaTitle @ prompt_tail) = Inr reply"
  shows "searchMediaWithGemini parse service mediaTitle =
           (interpret_reply parse mediaTitle (cleaned_reply reply),
            [prompt_head @ to_string mediaTitle @ prompt_tail])"
  using assms by (simp add: searchMediaWithGemini_def clean_as_specified)

text \<open>
  C7. When the cleaned reply (the fence stripped as line 120 strips it, the rest
  trimmed) does not parse as JSON, \<open>searchMediaWithGemini\<close> returns the fixed notice
  that the response could not be parsed, followed by the cleaned reply text as it is.
  For a reply that encloses a body in a \<^verbatim>\<open>json\<close> fence the text after the notice is
  the trimmed body, without the fence.
\<close>

theorem lookup_unparseable_reply:
  assumes "truthy mediaTitle"
    and "service (prompt_head @ to_string mediaTitle @ prompt_tail) = Inr reply"
    and "parse (cleaned_reply reply) = None"
  shows "searchMediaWithGemini parse service mediaTitle =
           (unparseable @ cleaned_reply reply,
            [prompt_head @ to_string mediaTitle @ prompt_tail]) \<and>
         (\<forall>ws1 body ws2.
            reply = fence_json @ ws1 @ body @ ws2 @ fence \<and> blank ws1 \<and> blank ws2 \<longrightarrow>
            fst (searchMediaWithGemini parse service mediaTitle) = unparseable @ trim body)"
proof -
  have "searchMediaWithGemini parse service mediaTitle =
      (unparseable @ cleaned_reply reply, [prompt_head @ to_string mediaTitle @ prompt_tail])"
    using lookup_reply [of mediaTitle service reply parse, OF assms(1,2)] assms(3)
    by (simp add: interpret_reply_def)
  then show ?thesis by (auto simp: cleaned_fenced)
qed

theorem lookup_unparseable_reply_witness:
  "truthy show_x \<and>
   replying (fence_json @ [10] @ ascii ''No idea.'' @ [10] @ fence)
     (prompt_head @ to_string show_x @ prompt_tail) =
     Inr (fence_json @ [10] @ ascii ''No idea.'' @ [10] @ fence) \<and>
   sample_parse (cleaned_reply (fence_json @ [10] @ ascii ''No idea.'' @ [10] @ fence)) = None \<and>
   blank [10] \<and>
   searchMediaWithGemini sample_parse
       (replying (fence_json @ [10] @ ascii ''No idea.'' @ [10] @ fence)) show_x =
     (unparseable @ ascii ''No idea.'', [prompt_head @ ascii ''Show X'' @ prompt_tail])"
proof -
  let ?reply = "fence_json @ [10] @ ascii ''No idea.'' @ [10] @ fence"
  have h4: "blank [10]" by (simp add: blank_def is_space_def)
  have body: "trim (ascii ''No idea.'') = ascii ''No idea.''"
    by (simp add: trim_def is_space_def ascii_def)
  have clean: "cleaned_reply ?reply = ascii ''No idea.''"
    using cleaned_fenced [OF h4 h4, of "ascii ''No idea.''"] by (simp only: body)
  have h1: "truthy show_x" and name: "to_string show_x = ascii ''Show X''"
    by (simp_all add: show_x_def ascii_def)
  have h2: "replying ?reply (prompt_head @ to_string show_x @ prompt_tail) = Inr ?reply"
    by (simp add: replying_def)
  have h3: "sample_parse (cleaned_reply ?reply) = None"
    unfolding clean
    by (simp add: sample_parse_def sentinel_text_def example_text_def quoted_def ascii_def)
  note main = lookup_unparseable_reply [of show_x "replying ?reply" ?reply sample_parse,
      OF h1 h2 h3, THEN conjunct1, unfolded clean name]
  from h1 h2 h3 h4 main show ?thesis by (intro conjI)
qed

text \<open>
  C6, as the claim states it, fails: a reply that encloses the JSON text \<^verbatim>\<open>{}\<close> in
  code fences without the language tag \<^verbatim>\<open>json\<close> keeps its opening fence, and the
  text handed to the parser is not the enclosed JSON: although \<^verbatim>\<open>{}\<close> parses, the
  lookup answers with the notice for an unparseable response.
\<close>

theorem lookup_plain_fence_counterexample:
  "trim (strip_fences (fence @ [10] @ ascii ''{}'' @ [10] @ fence)) = fence @ [10] @ ascii ''{}'' \<and>
   sample_parse (ascii ''{}'') = Some (JsonObj []) \<and>
   fst (searchMediaWithGemini sample_parse (replying (fence @ [10] @ ascii ''{}'' @ [10] @ fence))
          show_x) =
     unparseable @ fence @ [10] @ ascii ''{}''"
  by (simp add: searchMediaWithGemini_def interpret_reply_def strip_fences_def fence_def
      fence_json_def trim_def is_space_def ascii_def sample_parse_def replying_def show_x_def
      sentinel_text_def example_text_def quoted_def)

lemma example_block:
  "format_info show_x example_info =
     Inr (work_open @ ascii ''Show X'' @ info_close @ separator @
          summary_head @ ascii ''S'' @ [10, 10] @
          genre_head @ ascii ''A, B'' @ [10, 10] @
          sites_head @ ascii ''- Netflix'' @ [10] @
          separator @ attribution)"
  by (simp add: format_info_def example_info_def show_x_def and_then_def truthy_or_def ascii_def)

text \<open>
  C6, amended. For every reply, the text that \<open>searchMediaWithGemini\<close> hands to
  \<^verbatim>\<open>JSON.parse\<close> is the reply without an opening fence with the language tag
  \<^verbatim>\<open>json\<close> at its very start and the white space after it, without three backticks
  that end it, and trimmed. For a reply that has both, the text is the trimmed body;
  so it is for a reply with the opening fence alone and for a reply with the closing
  fence alone; a reply with neither is only trimmed.
\<close>

theorem lookup_json_fence:
  assumes "truthy mediaTitle"
    and "service (prompt_head @ to_string mediaTitle @ prompt_tail) = Inr reply"
  shows "fst (searchMediaWithGemini parse service mediaTitle) =
           interpret_reply parse mediaTitle (cleaned_reply reply) \<and>
         (\<forall>ws1 body ws2.
            reply = fence_json @ ws1 @ body @ ws2 @ fence \<and> blank ws1 \<and> blank ws2 \<longrightarrow>
            cleaned_reply reply = trim body) \<and>
         (\<forall>ws body.
            reply = fence_json @ ws @ body \<and> blank ws \<and> take 3 (rev body) \<noteq> fence \<longrightarrow>
            cleaned_reply reply = trim body) \<and>
         (\<forall>body.
            reply = body @ fence \<and> take 7 reply \<noteq> fence_json \<longrightarrow>
            cleaned_reply reply = trim body) \<and>
         (take 7 reply \<noteq> fence_json \<and> take 3 (rev reply) \<noteq> fence \<longrightarrow>
            cleaned_reply reply = trim reply)"
proof -
  have "fst (searchMediaWithGemini parse service mediaTitle) =
      interpret_reply parse mediaTitle (cleaned_reply reply)"
    using lookup_reply [of mediaTitle service reply parse, OF assms] by simp
  then show ?thesis
    by (auto simp: cleaned_fenced cleaned_opening_only cleaned_closing_only cleaned_plain)
qed

theorem lookup_json_fence_witness:
  "truthy show_x \<and> blank [10] \<and>
   replying (fence_json @ [10] @ example_text @ [10] @ fence)
     (prompt_head @ to_string show_x @ prompt_tail) =
     Inr (fence_json @ [10] @ example_text @ [10] @ fence) \<and>
   cleaned_reply (fence_json @ [10] @ example_text @ [10] @ fence) = example_text \<and>
   fst (searchMediaWithGemini sample_parse
          (replying (fence_json @ [10] @ example_text @ [10] @ fence)) show_x) =
     work_open @ ascii ''Show X'' @ info_close @ separator @
     summary_head @ ascii ''S'' @ [10, 10] @
     genre_head @ ascii ''A, B'' @ [10, 10] @
     sites_head @ ascii ''- Netflix'' @ [10] @
     separator @ attribution \<and>
   take 3 (rev example_text) \<noteq> fence \<and>
   cleaned_reply (fence_json @ [10] @ example_text) = example_text \<and>
   fst (searchMediaWithGemini sample_parse (replying (fence_json @ [10] @ example_text)) show_x) =
     interpret_reply sample_parse show_x example_text \<and>
   take 7 (example_text @ fence) \<noteq> fence_json \<and>
   cleaned_reply (example_text @ fence) = example_text \<and>
   fst (searchMediaWithGemini sample_parse (replying (example_text @ fence)) show_x) =
     interpret_reply sample_parse show_x example_text"
proof -
  let ?both = "fence_json @ [10] @ example_text @ [10] @ fence"
  let ?opening = "fence_json @ [10] @ example_text"
  let ?closing = "example_text @ fence"
  have h1: "truthy show_x" by (simp add: show_x_def ascii_def)
  have h2: "replying r (prompt_head @ to_string show_x @ prompt_tail) = Inr r" for r
    by (simp add: replying_def)
  have h3: "blank [10]" by (simp add: blank_def is_space_def)
  have body: "trim example_text = example_text"
    by (simp add: trim_def example_text_def quoted_def ascii_def is_space_def)
  have parsed: "sample_parse example_text = Some example_info"
    by (simp add: sample_parse_def sentinel_text_def example_text_def quoted_def ascii_def)
  have no_closing: "take 3 (rev example_text) \<noteq> fence"
    by (simp add: example_text_def quoted_def ascii_def fence_def)
  have no_opening: "take 7 ?closing \<noteq> fence_json"
    by (simp add: example_text_def quoted_def ascii_def fence_def fence_json_def)
  note r_both = lookup_json_fence [of show_x "replying ?both" ?both sample_parse, OF h1 h2]
  note r_opening = lookup_json_fence [of show_x "replying ?opening" ?opening sample_parse, OF h1 h2]
  note r_closing = lookup_json_fence [of show_x "replying ?closing" ?closing sample_parse, OF h1 h2]
  have c1: "cleaned_reply ?both = example_text"
    using r_both [THEN conjunct2, THEN conjunct1, rule_format, of "[10]" example_text "[10]"] h3
    by (simp only: body simp_thms)
  have c2: "cleaned_reply ?opening = example_text"
    using r_opening [THEN conjunct2, THEN conjunct2, THEN conjunct1, rule_format,
        of "[10]" example_text] h3 no_closing
    by (simp only: body simp_thms)
  have c3: "cleaned_reply ?closing = example_text"
    using r_closing [THEN conjunct2, THEN conjunct2, THEN conjunct2, THEN conjunct1, rule_format,
        of example_text] no_opening
    by (simp only: body simp_thms)
  have shown: "interpret_reply sample_parse show_x example_text =
     work_open @ ascii ''Show X'' @ info_close @ separator @
     summary_head @ ascii ''S'' @ [10, 10] @
     genre_head @ ascii ''A, B'' @ [10, 10] @
     sites_head @ ascii ''- Netflix'' @ [10] @
     separator @ attribution"
    by (simp add: interpret_reply_def parsed example_block)
  note r1 = r_both [THEN conjunct1, unfolded c1 shown]
  note r2 = r_opening [THEN conjunct1, unfolded c2]
  note r3 = r_closing [THEN conjunct1, unfolded c3]
  from h1 h3 h2 [of ?both] c1 r1 no_closing c2 r2 no_opening c3 r3
  show ?thesis by (intro conjI)
qed

section \<open>The enrichment client: rendering a parsed reply\<close>

text \<open>
  A reply of the expected shape is rendered as specified: an object whose
  \<^verbatim>\<open>summary\<close> is absent or a non-empty string and whose \<^verbatim>\<open>genre\<close> and
  \<^verbatim>\<open>streaming_sites\<close> are absent or arrays of strings.
\<close>

lemma join_strings: "join sep (map JsonStr xs) = Inr (joined sep xs)"
proof (induction xs rule: joined.induct[of _ sep])
  case (1 sep)
  show ?case by simp
next
  case (2 sep x)
  show ?case by (simp add: and_then_def)
next
  case (3 sep x y ys)
  then show ?case by (simp add: and_then_def)
qed

lemma bulleted_strings:
  "bulleted (map JsonStr xs) = Inr (map (\<lambda>s. JsonStr (ascii ''- '' @ s)) xs)"
  by (induction xs) (simp_all add: and_then_def)

lemma format_info_well_shaped:
  assumes "map_of kvs (ascii ''summary'') = map_option JsonStr summary"
    and "summary \<noteq> Some []"
    and "map_of kvs (ascii ''genre'') = map_option (\<lambda>gs. JsonArr (map JsonStr gs)) genres"
    and "map_of kvs (ascii ''streaming_sites'') =
           map_option (\<lambda>ss. JsonArr (map JsonStr ss)) sites"
  shows "format_info mediaTitle (JsonObj kvs) = Inr (spec_block mediaTitle summary genres sites)"
proof -
  have s: "truthy_or (map_option JsonStr summary) json_to_string no_info =
      Inr (case summary of None \<Rightarrow> no_info | Some s \<Rightarrow> s)"
    using assms(2) by (cases summary) (simp_all add: truthy_or_def)
  have g: "truthy_or (map_option (\<lambda>gs. JsonArr (map JsonStr gs)) genres)
        (\<lambda>g. call_join g (ascii '', '')) no_info =
      Inr (case genres of None \<Rightarrow> no_info | Some gs \<Rightarrow> joined (ascii '', '') gs)"
    by (cases genres) (simp_all add: truthy_or_def join_strings)
  have "join [10] (map (\<lambda>s. JsonStr (ascii ''- '' @ s)) ss) =
      Inr (joined [10] (map (\<lambda>s. ascii ''- '' @ s) ss))" for ss
    using join_strings [of "[10]" "map (\<lambda>s. ascii ''- '' @ s) ss"] by (simp add: comp_def)
  then have l: "truthy_or (map_option (\<lambda>ss. JsonArr (map JsonStr ss)) sites)
        (\<lambda>l. call_map_join l [10]) no_info =
      Inr (case sites of None \<Rightarrow> no_info
           | Some ss \<Rightarrow> joined [10] (map (\<lambda>s. ascii ''- '' @ s) ss))"
    by (cases sites) (simp_all add: truthy_or_def bulleted_strings and_then_def)
  show ?thesis
    by (simp add: format_info_def assms(1,3,4) and_then_def s g l spec_block_def)
qed

text \<open>Replies that parse and are not rendered: \<^verbatim>\<open>null\<close>, and an object whose
  \<^verbatim>\<open>genre\<close> is a non-empty string.\<close>

lemma null_throws: "format_info mediaTitle JsonNull = Inl TypeError"
  by (simp add: format_info_def and_then_def)

lemma only_TypeError: "e = TypeError"
  by (cases e) simp

lemma genre_string_throws:
  assumes "map_of kvs (ascii ''genre'') = Some (JsonStr g)" and "g \<noteq> []"
  shows "format_info mediaTitle (JsonObj kvs) = Inl TypeError"
proof -
  have "and_then (r :: js_error + jsstring)
          (\<lambda>summary_text. (Inl TypeError :: js_error + jsstring)) = Inl TypeError" for r
    by (cases r) (simp_all add: and_then_def only_TypeError)
  then show ?thesis
    using assms by (simp add: format_info_def and_then_def truthy_or_def)
qed

text \<open>
  C5 at the reply that the prompt itself asks for when nothing is known about the
  title: a fenced JSON object whose three items hold the text "No information was
  found.". The reply parses, \<^verbatim>\<open>info.genre.join\<close> is not a function on a string,
  the TypeError lands in the handler meant for parse errors, and the lookup returns the
  notice for an unparseable response with the raw JSON instead of the formatted block.
\<close>

theorem lookup_sentinel_reply:
  "sample_parse sentinel_text = Some sentinel_info \<and>
   searchMediaWithGemini sample_parse (replying (fence_json @ [10] @ sentinel_text @ [10] @ fence))
       show_x =
     (unparseable @ sentinel_text, [prompt_head @ ascii ''Show X'' @ prompt_tail])"
proof -
  have h3: "blank [10]" by (simp add: blank_def is_space_def)
  have body: "trim sentinel_text = sentinel_text"
    by (simp add: trim_def sentinel_text_def quoted_def ascii_def is_space_def)
  have clean: "trim (strip_fences (fence_json @ [10] @ sentinel_text @ [10] @ fence)) =
      sentinel_text"
    using clean_fenced [OF h3 h3, of sentinel_text] by (simp only: body)
  have cleaned: "cleaned_reply (fence_json @ [10] @ sentinel_text @ [10] @ fence) =
      sentinel_text"
    using clean by (simp only: clean_as_specified)
  have parsed: "sample_parse sentinel_text = Some sentinel_info"
    by (simp add: sample_parse_def)
  have "sentinel \<noteq> []" by (simp add: sentinel_def)
  then have thrown: "format_info show_x sentinel_info = Inl TypeError"
    unfolding sentinel_info_def by (intro genre_string_throws) simp_all
  have shown: "interpret_reply sample_parse show_x sentinel_text = unparseable @ sentinel_text"
    by (simp add: interpret_reply_def parsed thrown)
  have title: "truthy show_x" and name: "to_string show_x = ascii ''Show X''"
    by (simp_all add: show_x_def ascii_def)
  have "replying (fence_json @ [10] @ sentinel_text @ [10] @ fence)
      (prompt_head @ to_string show_x @ prompt_tail) =
      Inr (fence_json @ [10] @ sentinel_text @ [10] @ fence)"
    by (simp add: replying_def)
  from lookup_reply [of show_x "replying (fence_json @ [10] @ sentinel_text @ [10] @ fence)"
      "fence_json @ [10] @ sentinel_text @ [10] @ fence" sample_parse, OF title this,
      unfolded cleaned shown name] parsed
  show ?thesis by (intro conjI)
qed

end
